theory Spec2Isabelle
  imports Complex_Main "HOL-Library.Log_Nat"
begin

section \<open>JavaScript numbers\<close>

text \<open>
  A JavaScript \<^verbatim>\<open>number\<close> is an IEEE 754 binary64 value. The finite ones are
  rationals, and every arithmetic operator returns the exactly computed result rounded
  to the nearest binary64 value, ties to the even significand. The model keeps the
  finite values only: \<^verbatim>\<open>NaN\<close> and the infinities arise in the modelled
  code only from a division by zero, which is made explicit where a claim depends on it,
  and overflow (beyond \<open>2 ^ 1024\<close>) is outside the range of every quantity the
  program computes.
\<close>

type_synonym number = rat

definition round_half_even :: "rat \<Rightarrow> int" where
  "round_half_even x =
     (let f = \<lfloor>x\<rfloor>; d = x - of_int f
      in if d < 1 / 2 then f else if 1 / 2 < d then f + 1 else if even f then f else f + 1)"

text \<open>The binary exponent \<open>\<lfloor>log\<^sub>2 x\<rfloor>\<close> of a positive rational, from the bit
  lengths of its numerator and denominator.\<close>

definition ilog2 :: "rat \<Rightarrow> int" where
  "ilog2 x =
     (let k = bitlen (fst (quotient_of x)) - bitlen (snd (quotient_of x))
      in if 2 powi k \<le> x then k else k - 1)"

text \<open>The exponent of the last place of the binary64 values around \<open>x\<close>: 53
  significant bits, and the fixed spacing \<open>2 ^ - 1074\<close> of the subnormal range.\<close>

definition ulp_exponent :: "rat \<Rightarrow> int" where
  "ulp_exponent x = max (ilog2 x - 52) (- 1074)"

definition binary64_pos :: "rat \<Rightarrow> rat" where
  "binary64_pos x =
     of_int (round_half_even (x / 2 powi ulp_exponent x)) * 2 powi ulp_exponent x"

definition binary64 :: "rat \<Rightarrow> number" where
  "binary64 x = (if x = 0 then 0 else if 0 < x then binary64_pos x else - binary64_pos (- x))"

definition js_add :: "number \<Rightarrow> number \<Rightarrow> number" where
  "js_add x y = binary64 (x + y)"

definition js_sub :: "number \<Rightarrow> number \<Rightarrow> number" where
  "js_sub x y = binary64 (x - y)"

definition js_mul :: "number \<Rightarrow> number \<Rightarrow> number" where
  "js_mul x y = binary64 (x * y)"

text \<open>\<^verbatim>\<open>x / y\<close> for a divisor that the caller has tested to be non-zero.\<close>

definition js_div :: "number \<Rightarrow> number \<Rightarrow> number" where
  "js_div x y = binary64 (x / y)"

text \<open>\<^verbatim>\<open>Math.round\<close> is exact: the nearest integer, a tie going up.\<close>

definition Math_round :: "number \<Rightarrow> int" where
  "Math_round x = \<lfloor>x + 1 / 2\<rfloor>"

definition Math_max :: "number \<Rightarrow> number \<Rightarrow> number" where
  "Math_max x y = (if x < y then y else x)"

definition Math_min :: "number \<Rightarrow> number \<Rightarrow> number" where
  "Math_min x y = (if y < x then y else x)"

section \<open>The progress bar (\<^verbatim>\<open>components/ui/ProgressBar.tsx\<close>)\<close>

text \<open>
  The props with their optional members, and what the component renders: the three
  class strings, the width of the inner bar in percent, and the percentage line, which
  is present only when \<^verbatim>\<open>showPercentage\<close> is set.
\<close>

record ProgressBarProps =
  pb_progress :: number
  pb_color :: "string option"
  pb_height :: "string option"
  pb_showPercentage :: "bool option"
  pb_className :: "string option"

record ProgressBarView =
  view_container_class :: string
  view_track_class :: string
  view_bar_class :: string
  view_bar_width :: number
  view_percentage :: "number option"

definition default_to :: "'a \<Rightarrow> 'a option \<Rightarrow> 'a" where
  "default_to d v = (case v of None \<Rightarrow> d | Some x \<Rightarrow> x)"

definition ProgressBar :: "ProgressBarProps \<Rightarrow> ProgressBarView" where
  "ProgressBar props =
     (let progress = pb_progress props;
          color = default_to ''bg-blue-500'' (pb_color props);
          height = default_to ''h-2'' (pb_height props);
          showPercentage = default_to False (pb_showPercentage props);
          className = default_to '''' (pb_className props);
          normalizedProgress = Math_min (Math_max progress 0) 100
      in \<lparr> view_container_class = ''w-full '' @ className,
           view_track_class = ''w-full bg-gray-200 rounded-full '' @ height @ '' overflow-hidden'',
           view_bar_class = height @ '' '' @ color
              @ '' rounded-full transition-all duration-300 ease-in-out'',
           view_bar_width = normalizedProgress,
           view_percentage = (if showPercentage then Some normalizedProgress else None) \<rparr>)"

section \<open>JavaScript strings and truthiness\<close>

text \<open>
  A string is a list of code units, restricted here to the 8-bit range (Latin-1), which
  holds every literal of the modelled code. A string is truthy when it is not empty; an
  optional member is \<open>None\<close> when it is \<^verbatim>\<open>undefined\<close> or
  \<^verbatim>\<open>null\<close>.
\<close>

definition truthy_string :: "string \<Rightarrow> bool" where
  "truthy_string s = (s \<noteq> [])"

definition truthy_opt_string :: "string option \<Rightarrow> bool" where
  "truthy_opt_string v = (case v of None \<Rightarrow> False | Some s \<Rightarrow> truthy_string s)"

text \<open>The white space and line terminators that \<^verbatim>\<open>String.prototype.trim\<close>
  strips, among the 8-bit code units: TAB, LF, VT, FF, CR, space and no-break space.\<close>

definition js_whitespace :: "char \<Rightarrow> bool" where
  "js_whitespace c = (of_char c \<in> {9, 10, 11, 12, 13, 32, 160 :: nat})"

definition trim :: "string \<Rightarrow> string" where
  "trim s = rev (dropWhile js_whitespace (rev (dropWhile js_whitespace s)))"

section \<open>Domain types (\<^verbatim>\<open>types/auth.ts\<close>)\<close>

datatype role = super_admin | admin | expert | constateur

record User =
  user_id :: string
  user_email :: string
  user_role :: role
  user_full_name :: "string option"
  user_phone :: "string option"
  user_is_active :: bool

record AuthState =
  auth_user :: "User option"
  auth_loading :: bool
  auth_error :: "string option"

text \<open>A value stored under a key of \<^verbatim>\<open>technical_elements\<close> (a JSON column):
  an array of strings, a string, or any other JSON value.\<close>

datatype json_element = JArray "string list" | JString string | JOther

record Building =
  b_id :: string
  b_designation :: string
  b_basement_area_sqm :: "number option"
  b_ground_floor_area_sqm :: "number option"
  b_first_floor_area_sqm :: "number option"
  b_total_area :: "number option"
  b_technical_elements :: "(string \<rightharpoonup> json_element) option"
  b_miscellaneous_elements :: "string list option"
  b_new_value_mad :: "number option"
  b_obsolescence_percentage :: "number option"
  b_depreciated_value_mad :: "number option"
  b_contiguity :: "string option"
  b_communication :: "string option"
  b_is_active :: bool
  b_created_by :: "string option"

record Material =
  mat_id :: string
  mat_building_id :: string
  mat_name :: string
  mat_brand :: "string option"
  mat_model :: "string option"
  mat_serial_number :: "string option"
  mat_quantity :: "number option"
  mat_manufacturing_year :: "number option"
  mat_condition :: "string option"
  mat_new_value_mad :: "number option"
  mat_obsolescence_percentage :: "number option"
  mat_is_active :: bool

section \<open>Progress calculators (\<^verbatim>\<open>utils/progressCalculations.ts\<close>)\<close>

definition technicalElementKeys :: "string list" where
  "technicalElementKeys =
     [''semelles'', ''elevations'', ''ossature'', ''portes'', ''fenetres'', ''grillage'',
      ''chassis'', ''facade'', ''toiture'', ''sol'', ''plafond'', ''escalier'',
      ''cloisonnement'']"

text \<open>The test of one technical element: the member must be truthy, and then a
  non-empty array or a string that is not blank counts; an array is always truthy, the
  empty string never.\<close>

definition technical_element_filled :: "Building \<Rightarrow> string \<Rightarrow> bool" where
  "technical_element_filled building key =
     (case b_technical_elements building of
        None \<Rightarrow> False
      | Some elements \<Rightarrow>
          (case elements key of
             None \<Rightarrow> False
           | Some (JArray v) \<Rightarrow> 0 < length v
           | Some (JString v) \<Rightarrow> truthy_string v \<and> 0 < length (trim v)
           | Some JOther \<Rightarrow> False))"

text \<open>The two counters after the fixed fields and the technical elements, and after the
  miscellaneous elements; \<open>bump\<close> is \<^verbatim>\<open>if (test) progress += 1\<close>.\<close>

definition bump :: "bool \<Rightarrow> nat \<Rightarrow> nat" where
  "bump test progress = (if test then progress + 1 else progress)"

definition building_counters :: "Building \<Rightarrow> nat \<times> nat" where
  "building_counters building =
     (let progress = 0; totalFields = 0;
          totalFields = totalFields + 1;
          progress = bump (truthy_string (b_designation building)) progress;
          totalFields = totalFields + 3;
          progress = bump (b_basement_area_sqm building \<noteq> None) progress;
          progress = bump (b_ground_floor_area_sqm building \<noteq> None) progress;
          progress = bump (b_first_floor_area_sqm building \<noteq> None) progress;
          totalFields = totalFields + 2;
          progress = bump (truthy_opt_string (b_contiguity building)) progress;
          progress = bump (truthy_opt_string (b_communication building)) progress;
          totalFields = totalFields + 2;
          progress = bump (case b_new_value_mad building of None \<Rightarrow> False | Some v \<Rightarrow> 0 < v)
                       progress;
          progress = bump (b_obsolescence_percentage building \<noteq> None) progress;
          (progress, totalFields) =
             fold (\<lambda>key (progress, totalFields).
                     (bump (technical_element_filled building key) progress, totalFields + 1))
                  technicalElementKeys (progress, totalFields)
      in case b_miscellaneous_elements building of
           None \<Rightarrow> (progress, totalFields)
         | Some elements \<Rightarrow>
             fold (\<lambda>_ (progress, totalFields). (progress + 1, totalFields + 1))
                  elements (progress, totalFields))"

definition percentage :: "nat \<times> nat \<Rightarrow> int" where
  "percentage counters =
     (case counters of (progress, totalFields) \<Rightarrow>
        if 0 < totalFields
        then Math_round (js_mul (js_div (of_nat progress) (of_nat totalFields)) 100)
        else 0)"

definition calculateBuildingProgress :: "Building \<Rightarrow> int" where
  "calculateBuildingProgress building = percentage (building_counters building)"

definition material_counters :: "Material \<Rightarrow> nat \<times> nat" where
  "material_counters material =
     (let progress = 0; totalFields = 0;
          totalFields = totalFields + 1;
          progress = bump (truthy_string (mat_name material)) progress;
          totalFields = totalFields + 1;
          progress = bump (truthy_string (mat_building_id material)) progress;
          totalFields = totalFields + 1;
          progress = bump (truthy_opt_string (mat_brand material)) progress;
          totalFields = totalFields + 1;
          progress = bump (truthy_opt_string (mat_model material)) progress;
          totalFields = totalFields + 1;
          progress = bump (case mat_quantity material of None \<Rightarrow> False | Some v \<Rightarrow> 0 < v)
                       progress;
          totalFields = totalFields + 1;
          progress = bump (truthy_opt_string (mat_serial_number material)) progress;
          totalFields = totalFields + 1;
          progress = bump (mat_manufacturing_year material \<noteq> None) progress;
          totalFields = totalFields + 1;
          progress = bump (truthy_opt_string (mat_condition material)) progress;
          totalFields = totalFields + 1;
          progress = bump (case mat_new_value_mad material of None \<Rightarrow> False | Some v \<Rightarrow> 0 < v)
                       progress;
          totalFields = totalFields + 1;
          progress = bump (mat_obsolescence_percentage material \<noteq> None) progress
      in (progress, totalFields))"

definition calculateMaterialProgress :: "Material \<Rightarrow> int" where
  "calculateMaterialProgress material = percentage (material_counters material)"

text \<open>The literals \<^verbatim>\<open>0.6\<close> and \<^verbatim>\<open>0.4\<close> denote the binary64
  values nearest to them.\<close>

definition weight_buildings :: number where
  "weight_buildings = binary64 (6 / 10)"

definition weight_materials :: number where
  "weight_materials = binary64 (4 / 10)"

definition sum_progress :: "('a \<Rightarrow> int) \<Rightarrow> 'a list \<Rightarrow> number" where
  "sum_progress f xs = foldl (\<lambda>sum x. js_add sum (of_int (f x))) 0 xs"

definition calculateOverallMissionProgress :: "Building list \<Rightarrow> Material list \<Rightarrow> string \<Rightarrow> int" where
  "calculateOverallMissionProgress buildings materials missionStatus =
     (if missionStatus = ''completed'' then 100
      else if missionStatus = ''cancelled'' then 0
      else if length buildings = 0 \<and> length materials = 0 then
        (if missionStatus = ''draft'' then 0
         else if missionStatus = ''assigned'' then 15
         else if missionStatus = ''in_progress'' then 50
         else 0)
      else
        (let totalProgress = 0; totalWeight = 0;
             (totalProgress, totalWeight) =
                (if 0 < length buildings then
                   (let buildingsProgress =
                          js_div (sum_progress calculateBuildingProgress buildings)
                                 (of_nat (length buildings))
                    in (js_add totalProgress (js_mul buildingsProgress weight_buildings),
                        js_add totalWeight weight_buildings))
                 else (totalProgress, totalWeight));
             (totalProgress, totalWeight) =
                (if 0 < length materials then
                   (let materialsProgress =
                          js_div (sum_progress calculateMaterialProgress materials)
                                 (of_nat (length materials))
                    in (js_add totalProgress (js_mul materialsProgress weight_materials),
                        js_add totalWeight weight_materials))
                 else (totalProgress, totalWeight))
         in if 0 < totalWeight then Math_round (js_div totalProgress totalWeight) else 0))"

record ValidationStatus =
  vs_completed :: nat
  vs_total :: nat
  vs_status :: string
  vs_color :: string

text \<open>The status strings, with \<open>CHR 0xE9\<close> and \<open>CHR 0xE2\<close> for the accented letters.\<close>

definition str_Valide :: string where
  "str_Valide = ''Valid'' @ [CHR 0xE9]"

definition str_Aucun_batiment :: string where
  "str_Aucun_batiment = ''Aucun b'' @ [CHR 0xE2] @ ''timent''"

definition str_Aucun_materiel :: string where
  "str_Aucun_materiel = ''Aucun mat'' @ [CHR 0xE9] @ ''riel''"

definition getBuildingsValidationStatus :: "Building list \<Rightarrow> ValidationStatus" where
  "getBuildingsValidationStatus buildings =
     (if length buildings = 0 then
        \<lparr> vs_completed = 0, vs_total = 0, vs_status = str_Aucun_batiment,
          vs_color = ''text-gray-600'' \<rparr>
      else
        (let completed = length (filter (\<lambda>building. 80 \<le> calculateBuildingProgress building)
                                        buildings);
             total = length buildings
         in if completed = total then
              \<lparr> vs_completed = completed, vs_total = total, vs_status = str_Valide,
                vs_color = ''text-green-600'' \<rparr>
            else if 0 < completed then
              \<lparr> vs_completed = completed, vs_total = total,
                vs_status = ''Validation partielle'', vs_color = ''text-amber-600'' \<rparr>
            else
              \<lparr> vs_completed = completed, vs_total = total, vs_status = ''En attente'',
                vs_color = ''text-gray-600'' \<rparr>))"

definition getMaterialsValidationStatus :: "Material list \<Rightarrow> ValidationStatus" where
  "getMaterialsValidationStatus materials =
     (if length materials = 0 then
        \<lparr> vs_completed = 0, vs_total = 0, vs_status = str_Aucun_materiel,
          vs_color = ''text-gray-600'' \<rparr>
      else
        (let completed = length (filter (\<lambda>material. 80 \<le> calculateMaterialProgress material)
                                        materials);
             total = length materials
         in if completed = total then
              \<lparr> vs_completed = completed, vs_total = total, vs_status = str_Valide,
                vs_color = ''text-green-600'' \<rparr>
            else if 0 < completed then
              \<lparr> vs_completed = completed, vs_total = total,
                vs_status = ''Validation partielle'', vs_color = ''text-amber-600'' \<rparr>
            else
              \<lparr> vs_completed = completed, vs_total = total, vs_status = ''En attente'',
                vs_color = ''text-gray-600'' \<rparr>))"

section \<open>Dashboard variation (\<^verbatim>\<open>services/dashboardService.ts\<close>)\<close>

text \<open>A division whose result is finite: \<open>None\<close> stands for the \<^verbatim>\<open>NaN\<close> or
  infinity that a zero divisor gives.\<close>

definition js_div_finite :: "number \<Rightarrow> number \<Rightarrow> number option" where
  "js_div_finite x y = (if y = 0 then None else Some (js_div x y))"

definition calculateVariation :: "number \<Rightarrow> number \<Rightarrow> int option" where
  "calculateVariation current previous =
     (if previous = 0 then Some (if 0 < current then 100 else 0)
      else map_option (\<lambda>ratio. Math_round (js_mul ratio 100))
             (js_div_finite (js_sub current previous) previous))"

section \<open>The route guard (\<^verbatim>\<open>components/ProtectedRoute.tsx\<close>)\<close>

text \<open>What the component returns: the loading screen, a navigation to
  \<^verbatim>\<open>/login\<close> (with the error put in the navigation state, if any), the
  connection-problem screen showing the error, the access-refused screen showing the
  user's role, or the children.\<close>

datatype 'a route_result =
    LoadingScreen
  | NavigateToLogin "string option"
  | ConnectionProblemScreen string
  | AccessDeniedScreen role
  | RenderChildren 'a

definition str_session_expiree :: string where
  "str_session_expiree = ''Session expir'' @ [CHR 0xE9] @ ''e ou invalide''"

definition shouldRedirectToLogin :: "string option \<Rightarrow> User option \<Rightarrow> bool" where
  "shouldRedirectToLogin errorMessage currentUser =
     (truthy_opt_string errorMessage \<and> currentUser = None)"

definition ProtectedRoute :: "'a \<Rightarrow> role list option \<Rightarrow> AuthState \<Rightarrow> 'a route_result" where
  "ProtectedRoute children allowedRoles auth =
     (let user = auth_user auth; loading = auth_loading auth; error = auth_error auth
      in if loading then LoadingScreen
         else if truthy_opt_string error then
           (if shouldRedirectToLogin error user then NavigateToLogin (Some str_session_expiree)
            else ConnectionProblemScreen (default_to [] error))
         else
           (case user of
              None \<Rightarrow> NavigateToLogin None
            | Some u \<Rightarrow>
                (case allowedRoles of
                   None \<Rightarrow> RenderChildren children
                 | Some roles \<Rightarrow>
                     if user_role u \<notin> set roles then AccessDeniedScreen (user_role u)
                     else RenderChildren children)))"

section \<open>Role permissions (\<^verbatim>\<open>hooks/useRolePermissions.ts\<close>)\<close>















section \<open>Row-level security of \<^verbatim>\<open>public.buildings\<close>\<close>

text \<open>
  The tables the policies read, with the columns they read. A nullable column is an
  option, \<open>None\<close> for \<^verbatim>\<open>NULL\<close>. The policy expressions use only
  \<^verbatim>\<open>AND\<close>, \<^verbatim>\<open>OR\<close>, \<^verbatim>\<open>EXISTS\<close>, \<^verbatim>\<open>IN\<close> and
  equality, without negation, and a row passes when its expression is true: so a
  comparison with \<^verbatim>\<open>NULL\<close>, which is unknown, counts as false.
  \<^verbatim>\<open>auth.uid()\<close> is the identifier of the authenticated user. The four
  policies below are the only ones on the table after the last migration
  (\<^verbatim>\<open>20250709133918\<close>), which drops the five policies of the earlier ones.
\<close>

type_synonym uuid = string

record profile_row =
  p_id :: uuid
  p_role :: "string option"
  p_is_active :: "bool option"

datatype mission_status = draft | assigned | in_progress | completed | cancelled

record mission_row =
  m_id :: uuid
  m_status :: "mission_status option"
  m_assigned_to :: "uuid option"
  m_created_by :: uuid

record mission_building_row =
  mb_mission_id :: uuid
  mb_building_id :: uuid

record building_row =
  bld_id :: uuid
  bld_created_by :: "uuid option"

record database =
  profiles :: "profile_row list"
  missions :: "mission_row list"
  mission_buildings :: "mission_building_row list"

text \<open>\<^verbatim>\<open>EXISTS (SELECT 1 FROM profiles WHERE profiles.id = auth.uid() AND
  profiles.role IN (...) AND profiles.is_active = true)\<close>\<close>

definition profile_exists :: "database \<Rightarrow> uuid \<Rightarrow> string list \<Rightarrow> bool" where
  "profile_exists db uid roles =
     list_ex (\<lambda>p. p_id p = uid
                 \<and> (case p_role p of None \<Rightarrow> False | Some r \<Rightarrow> r \<in> set roles)
                 \<and> p_is_active p = Some True)
             (profiles db)"


text \<open>The same with \<^verbatim>\<open>AND m.status IN ('draft', 'assigned', 'in_progress')\<close>.\<close>

definition open_assigned_mission_exists :: "database \<Rightarrow> uuid \<Rightarrow> building_row \<Rightarrow> bool" where
  "open_assigned_mission_exists db uid b =
     list_ex (\<lambda>mb. list_ex (\<lambda>m. m_id m = mb_mission_id mb
                                  \<and> mb_building_id mb = bld_id b
                                  \<and> m_assigned_to m = Some uid
                                  \<and> m_status m \<in> {Some draft, Some assigned, Some in_progress})
                            (missions db))
             (mission_buildings db)"



text \<open>Policy "Allow updating buildings based on role and ownership": \<^verbatim>\<open>USING\<close>
  on the existing row and \<^verbatim>\<open>WITH CHECK\<close> on the updated row.\<close>

definition buildings_update_using :: "database \<Rightarrow> uuid \<Rightarrow> building_row \<Rightarrow> bool" where
  "buildings_update_using db uid b =
     (profile_exists db uid [''super_admin'', ''admin'']
      \<or> (profile_exists db uid [''expert''] \<and> bld_created_by b = Some uid)
      \<or> (bld_created_by b = Some uid
          \<and> profile_exists db uid [''constateur'']
          \<and> open_assigned_mission_exists db uid b))"

definition buildings_update_check :: "database \<Rightarrow> uuid \<Rightarrow> building_row \<Rightarrow> bool" where
  "buildings_update_check db uid b =
     (profile_exists db uid [''super_admin'', ''admin'']
      \<or> (profile_exists db uid [''expert''] \<and> bld_created_by b = Some uid)
      \<or> (bld_created_by b = Some uid
          \<and> profile_exists db uid [''constateur'']
          \<and> open_assigned_mission_exists db uid b))"

text \<open>Policy "Allow deleting buildings based on role and ownership" (\<^verbatim>\<open>FOR DELETE
  USING\<close>).\<close>

definition buildings_delete_using :: "database \<Rightarrow> uuid \<Rightarrow> building_row \<Rightarrow> bool" where
  "buildings_delete_using db uid b =
     (profile_exists db uid [''super_admin'', ''admin'']
      \<or> (profile_exists db uid [''expert''] \<and> bld_created_by b = Some uid)
      \<or> (bld_created_by b = Some uid
          \<and> profile_exists db uid [''constateur'']
          \<and> open_assigned_mission_exists db uid b))"


section \<open>Row-level security of the other tables\<close>





subsection \<open>Subqueries\<close>






subsection \<open>Table \<^verbatim>\<open>profiles\<close> (\<^verbatim>\<open>20250624194827_muddy_glitter.sql\<close>)\<close>









subsection \<open>Table \<^verbatim>\<open>buildings\<close> before \<^verbatim>\<open>20250709133918\<close>
  (\<^verbatim>\<open>20250624194827_muddy_glitter.sql\<close>)\<close>






subsection \<open>Table \<^verbatim>\<open>materials\<close> before \<^verbatim>\<open>20250626103529\<close>
  (\<^verbatim>\<open>20250624194827_muddy_glitter.sql\<close>)\<close>






subsection \<open>Table \<^verbatim>\<open>materials\<close> (\<^verbatim>\<open>20250626103529_falling_portal.sql\<close>)\<close>






subsection \<open>Table \<^verbatim>\<open>missions\<close> (\<^verbatim>\<open>20250624194827_muddy_glitter.sql\<close>)\<close>








subsection \<open>Table \<^verbatim>\<open>missions\<close>: the policy that replaces the two
  \<^verbatim>\<open>SELECT\<close> policies (\<^verbatim>\<open>unnamed/part_001\<close>)\<close>


subsection \<open>Table \<^verbatim>\<open>mission_buildings\<close>
  (\<^verbatim>\<open>20250624194827_muddy_glitter.sql\<close> and, for the policies of the same names,
  \<^verbatim>\<open>20250626103529_falling_portal.sql\<close>)\<close>










subsection \<open>Table \<^verbatim>\<open>mission_buildings\<close>: the four policies of
  \<^verbatim>\<open>20250624155515_teal_frog.sql\<close>, \<^verbatim>\<open>20250625125311_wispy_shape.sql\<close> and
  \<^verbatim>\<open>20250625211248_lively_cherry.sql\<close>\<close>










subsection \<open>Table \<^verbatim>\<open>storage.objects\<close> (\<^verbatim>\<open>unnamed/part_000\<close>)\<close>






subsection \<open>Table \<^verbatim>\<open>users\<close> (\<^verbatim>\<open>unnamed/part_000\<close>)\<close>










subsection \<open>Sample rows\<close>
















section \<open>The report generator (\<^verbatim>\<open>utils/pdfGenerator.ts\<close>)\<close>







text \<open>\<^verbatim>\<open>toLowerCase\<close> on the 8-bit code units: the letters A to Z and the
  accented capitals \<open>0xC0\<close> to \<open>0xDE\<close>, the multiplication sign \<open>0xD7\<close> apart, move
  up by 32.\<close>

definition toLowerCase_unit :: "char \<Rightarrow> char" where
  "toLowerCase_unit c =
     (let n = of_char c :: nat
      in if (65 \<le> n \<and> n \<le> 90) \<or> (192 \<le> n \<and> n \<le> 222 \<and> n \<noteq> 215) then char_of (n + 32)
         else c)"

definition toLowerCase :: "string \<Rightarrow> string" where
  "toLowerCase s = map toLowerCase_unit s"

text \<open>The character class \<^verbatim>\<open>[a-z0-9]\<close>.\<close>

definition lower_alnum :: "char \<Rightarrow> bool" where
  "lower_alnum c =
     (let n = of_char c :: nat in (97 \<le> n \<and> n \<le> 122) \<or> (48 \<le> n \<and> n \<le> 57))"

text \<open>\<^verbatim>\<open>replace(/[^a-z0-9]+/g, '-')\<close>: every maximal run of other characters
  becomes one dash.\<close>

function replace_other_runs :: "string \<Rightarrow> string" where
  "replace_other_runs [] = []"
| "replace_other_runs (c # cs) =
     (if lower_alnum c then c # replace_other_runs cs
      else CHR ''-'' # replace_other_runs (dropWhile (\<lambda>c. \<not> lower_alnum c) cs))"
  by pat_completeness auto
termination
  by (relation "measure length") (auto simp: le_imp_less_Suc length_dropWhile_le)

text \<open>\<^verbatim>\<open>replace(/^-+|-+$/g, '')\<close>: the dashes at the start and at the end go.\<close>

definition strip_dashes :: "string \<Rightarrow> string" where
  "strip_dashes s =
     rev (dropWhile (\<lambda>c. c = CHR ''-'') (rev (dropWhile (\<lambda>c. c = CHR ''-'') s)))"

definition createSlug :: "string \<Rightarrow> string" where
  "createSlug title = strip_dashes (replace_other_runs (toLowerCase title))"

text \<open>The name under which \<^verbatim>\<open>generateMissionReportPdf\<close> downloads the report
  of a mission with the given title.\<close>

definition report_fileName :: "string \<Rightarrow> string" where
  "report_fileName title = (let slug = createSlug title in ''rapport_'' @ slug @ ''.pdf'')"

text \<open>The shape of a slug before its ends are stripped: letters, digits and dashes, no
  dash directly after another. It is used to prove that a slug is a fixed point.\<close>

fun dash_separated :: "string \<Rightarrow> bool" where
  "dash_separated [] = True"
| "dash_separated [c] = (lower_alnum c \<or> c = CHR ''-'')"
| "dash_separated (c # d # cs) =
     ((lower_alnum c \<or> (c = CHR ''-'' \<and> lower_alnum d)) \<and> dash_separated (d # cs))"

section \<open>Sample buildings\<close>

text \<open>A building as the form saves it: the three surfaces, contiguity, communication and
  obsolescence at their defaults or set, a value, and the technical elements given as
  the association list \<open>elements\<close>.\<close>

definition form_building :: "string \<Rightarrow> (string \<times> json_element) list \<Rightarrow> Building" where
  "form_building name elements =
     \<lparr> b_id = name, b_designation = ''Atelier'',
       b_basement_area_sqm = Some 0, b_ground_floor_area_sqm = Some 120,
       b_first_floor_area_sqm = Some 0, b_total_area = Some 120,
       b_technical_elements = Some (map_of elements),
       b_miscellaneous_elements = Some [],
       b_new_value_mad = Some 250000, b_obsolescence_percentage = Some 10,
       b_depreciated_value_mad = Some 225000,
       b_contiguity = Some ''neant'', b_communication = Some ''neant'',
       b_is_active = True, b_created_by = Some ''u1'' \<rparr>"

definition building_12_of_21 :: Building where
  "building_12_of_21 =
     form_building ''b1''
       [(''semelles'', JArray [''moellons'']), (''ossature'', JArray [''bois'']),
        (''portes'', JArray [''PVC'']), (''fenetres'', JArray [''PVC'']),
        (''toiture'', JArray []), (''sol'', JArray [])]"

definition building_13_of_21 :: Building where
  "building_13_of_21 =
     form_building ''b2''
       [(''semelles'', JArray [''moellons'']), (''ossature'', JArray [''bois'']),
        (''portes'', JArray [''PVC'']), (''fenetres'', JArray [''PVC'']),
        (''toiture'', JArray [''Zinc'']), (''sol'', JArray [])]"

text \<open>A record with nineteen miscellaneous elements, a designation, contiguity,
  communication and an obsolescence, and nothing else: its three surfaces are null,
  which the form never stores.\<close>

definition building_23_of_40 :: Building where
  "building_23_of_40 =
     \<lparr> b_id = ''b3'', b_designation = ''Entrepot'',
       b_basement_area_sqm = None, b_ground_floor_area_sqm = None,
       b_first_floor_area_sqm = None, b_total_area = None,
       b_technical_elements = None,
       b_miscellaneous_elements =
         Some [''Peinture sur murs'', ''Peinture sur menuiseries'', ''Papier peint'',
               ''Faience'', ''Peinture sur elements metalliques'',
               ''Revetement partiel en carrelage'', ''Revetement mural en faience'',
               ''Revetement mural en liege'', ''Revetement mural en papier peint'',
               ''Revetement mural en lambris'', ''Revetement interieur murs et cloisons'',
               ''Rideaux'', ''Stores'', ''Sanitaire : Lavabo'', ''Sanitaire : WC'',
               ''Presence de chauffe-eau'', ''Installation electrique'', ''Ascenseur'',
               ''Zinguerie : Gouttieres''],
       b_new_value_mad = None, b_obsolescence_percentage = Some 0,
       b_depreciated_value_mad = None,
       b_contiguity = Some ''neant'', b_communication = Some ''neant'',
       b_is_active = True, b_created_by = Some ''u1'' \<rparr>"


section \<open>Properties of the binary64 rounding\<close>

subsection \<open>Rounding to binary64 is monotone\<close>

lemma round_half_even_mono: "x \<le> y \<Longrightarrow> round_half_even x \<le> round_half_even y"
proof -
  assume xy: "x \<le> y"
  have fl: "\<lfloor>x\<rfloor> \<le> \<lfloor>y\<rfloor>" using xy by (rule floor_mono)
  show ?thesis
  proof (cases "\<lfloor>x\<rfloor> = \<lfloor>y\<rfloor>")
    case True
    then show ?thesis using xy by (auto simp: round_half_even_def Let_def)
  next
    case False
    then have "\<lfloor>x\<rfloor> + 1 \<le> \<lfloor>y\<rfloor>" using fl by simp
    moreover have "round_half_even x \<le> \<lfloor>x\<rfloor> + 1" by (simp add: round_half_even_def Let_def)
    moreover have "\<lfloor>y\<rfloor> \<le> round_half_even y" by (simp add: round_half_even_def Let_def)
    ultimately show ?thesis by linarith
  qed
qed

lemma round_half_even_of_int [simp]: "round_half_even (of_int n) = n"
  by (simp add: round_half_even_def)

lemma ilog2_bounds:
  assumes "0 < x"
  shows "2 powi ilog2 x \<le> x" and "x < 2 powi (ilog2 x + 1)"
proof -
  obtain n d where q: "quotient_of x = (n, d)" by (cases "quotient_of x")
  have d: "0 < d" using q quotient_of_denom_pos by blast
  have x: "x = of_int n / of_int d" using q by (rule quotient_of_div)
  have n: "0 < n" using assms d x by (simp add: zero_less_divide_iff)
  let ?bn = "bitlen n" and ?bd = "bitlen d"
  from bitlen_bounds[OF n] have n1: "2 ^ nat (?bn - 1) \<le> n" and n2: "n < 2 ^ nat ?bn" by auto
  from bitlen_bounds[OF d] have d1: "2 ^ nat (?bd - 1) \<le> d" and d2: "d < 2 ^ nat ?bd" by auto
  have bn: "1 \<le> ?bn" using n by (auto simp: bitlen_alt_def)
  have bd: "1 \<le> ?bd" using d by (auto simp: bitlen_alt_def)
  have rn1: "(2::rat) powi (?bn - 1) \<le> of_int n"
  proof -
    have "(of_int (2 ^ nat (?bn - 1)) :: rat) \<le> of_int n" using n1 by (simp only: of_int_le_iff)
    then show ?thesis using bn by (simp add: power_int_nonneg_exp)
  qed
  have rn2: "of_int n < (2::rat) powi ?bn"
  proof -
    have "(of_int n :: rat) < of_int (2 ^ nat ?bn)" using n2 by (simp only: of_int_less_iff)
    then show ?thesis using bn by (simp add: power_int_nonneg_exp)
  qed
  have rd1: "(2::rat) powi (?bd - 1) \<le> of_int d"
  proof -
    have "(of_int (2 ^ nat (?bd - 1)) :: rat) \<le> of_int d" using d1 by (simp only: of_int_le_iff)
    then show ?thesis using bd by (simp add: power_int_nonneg_exp)
  qed
  have rd2: "of_int d < (2::rat) powi ?bd"
  proof -
    have "(of_int d :: rat) < of_int (2 ^ nat ?bd)" using d2 by (simp only: of_int_less_iff)
    then show ?thesis using bd by (simp add: power_int_nonneg_exp)
  qed
  have dpos: "(0::rat) < of_int d" using d by simp
  have lo: "(2::rat) powi (?bn - ?bd - 1) < x"
  proof -
    have "(2::rat) powi (?bn - ?bd - 1) * of_int d < 2 powi (?bn - ?bd - 1) * 2 powi ?bd"
      using rd2 by (simp add: mult_strict_left_mono)
    also have "\<dots> = 2 powi (?bn - 1)" by (simp add: power_int_add [symmetric])
    also have "\<dots> \<le> of_int n" by (rule rn1)
    finally show ?thesis using dpos by (simp add: x pos_less_divide_eq)
  qed
  have hi: "x < (2::rat) powi (?bn - ?bd + 1)"
  proof -
    have "of_int n < (2::rat) powi ?bn" by (rule rn2)
    also have "\<dots> = 2 powi (?bn - ?bd + 1) * 2 powi (?bd - 1)"
      by (simp add: power_int_add [symmetric])
    also have "\<dots> \<le> 2 powi (?bn - ?bd + 1) * of_int d"
      using rd1 by (simp add: mult_left_mono)
    finally show ?thesis using dpos by (simp add: x pos_divide_less_eq)
  qed
  show "2 powi ilog2 x \<le> x"
    using lo by (auto simp: ilog2_def Let_def q)
  show "x < 2 powi (ilog2 x + 1)"
    using hi by (auto simp: ilog2_def Let_def q not_le)
qed


lemma scaled_below:
  assumes "0 < x"
  shows "x / 2 powi ulp_exponent x < 2 ^ 53"
proof -
  have "x < 2 powi (ilog2 x + 1)" using assms by (rule ilog2_bounds)
  also have "\<dots> \<le> 2 powi (ulp_exponent x + 53)"
    by (rule power_int_increasing) (simp_all add: ulp_exponent_def)
  also have "\<dots> = 2 powi ulp_exponent x * 2 ^ 53"
    by (simp add: power_int_add)
  finally show ?thesis by (simp add: pos_divide_less_eq mult.commute)
qed







subsection \<open>Integers below \<open>2 ^ 53\<close> are binary64 values\<close>

lemma ilog2_less:
  assumes "0 < x" "x < 2 powi k"
  shows "ilog2 x < k"
proof (rule ccontr)
  assume "\<not> ilog2 x < k"
  then have "k \<le> ilog2 x" by simp
  then have "(2::rat) powi k \<le> 2 powi ilog2 x" by (rule power_int_increasing) simp
  also have "\<dots> \<le> x" using assms(1) by (rule ilog2_bounds)
  finally show False using assms(2) by simp
qed

lemma binary64_pos_of_int:
  assumes "0 < n" "n < 2 ^ 53"
  shows "binary64_pos (of_int n) = of_int n"
proof -
  let ?x = "of_int n :: rat"
  have x: "0 < ?x" using assms(1) by simp
  have "?x < of_int (2 ^ 53)" using assms(2) by (simp only: of_int_less_iff)
  then have "?x < 2 powi 53" by simp
  then have "ilog2 ?x < 53" using x by (intro ilog2_less)
  then have e: "ulp_exponent ?x \<le> 0" by (simp add: ulp_exponent_def)
  define k where "k = nat (- ulp_exponent ?x)"
  have ek: "ulp_exponent ?x = - int k" using e by (simp add: k_def)
  have p: "(2::rat) powi ulp_exponent ?x = 1 / 2 ^ k"
    by (simp add: ek power_int_minus_divide)
  have "?x / 2 powi ulp_exponent ?x = of_int (n * 2 ^ k)" by (simp add: p)
  then have "round_half_even (?x / 2 powi ulp_exponent ?x) = n * 2 ^ k"
    by (simp only: round_half_even_of_int)
  then show ?thesis by (simp add: binary64_pos_def p)
qed

lemma binary64_of_int: "\<bar>n\<bar> < 2 ^ 53 \<Longrightarrow> binary64 (of_int n) = of_int n"
  using binary64_pos_of_int[of n] binary64_pos_of_int[of "- n"]
  by (auto simp: binary64_def)

lemma js_add_of_int:
  "\<bar>a + b\<bar> < 2 ^ 53 \<Longrightarrow> js_add (of_int a) (of_int b) = of_int a + of_int b"
  using binary64_of_int[of "a + b"] by (simp add: js_add_def)

subsection \<open>Binary64 values are fixed points of the rounding\<close>

lemma ilog2_ge:
  assumes "0 < x" "2 powi k \<le> x"
  shows "k \<le> ilog2 x"
proof (rule ccontr)
  assume "\<not> k \<le> ilog2 x"
  then have "ilog2 x + 1 \<le> k" by simp
  then have "(2::rat) powi (ilog2 x + 1) \<le> 2 powi k" by (rule power_int_increasing) simp
  also have "\<dots> \<le> x" by (rule assms(2))
  finally show False using ilog2_bounds(2)[OF assms(1)] by simp
qed

lemma ilog2_unique:
  assumes "0 < x" "2 powi k \<le> x" "x < 2 powi (k + 1)"
  shows "ilog2 x = k"
proof -
  have "ilog2 x < k + 1" using assms(1,3) by (rule ilog2_less)
  moreover have "k \<le> ilog2 x" using assms(1,2) by (rule ilog2_ge)
  ultimately show ?thesis by simp
qed

lemma binary64_pos_grid:
  assumes "ulp_exponent (of_int m * 2 powi e) = e"
  shows "binary64_pos (of_int m * 2 powi e) = of_int m * 2 powi e"
proof -
  have "of_int m * (2::rat) powi e / 2 powi e = of_int m" by simp
  then show ?thesis
    unfolding binary64_pos_def assms by (simp only: round_half_even_of_int)
qed

lemma scaled_above:
  assumes "0 < x" and "ulp_exponent x = ilog2 x - 52"
  shows "2 ^ 52 \<le> x / 2 powi ulp_exponent x"
proof -
  have "(2::rat) powi (ulp_exponent x + 52) \<le> x"
    using ilog2_bounds(1)[OF assms(1)] by (simp add: assms(2))
  then have "(2::rat) ^ 52 * 2 powi ulp_exponent x \<le> x"
    by (simp add: power_int_add mult.commute)
  then show ?thesis by (simp add: pos_le_divide_eq)
qed

lemma binary64_pos_idem:
  assumes "0 < x"
  shows "binary64 (binary64_pos x) = binary64_pos x"
proof -
  define e where "e = ulp_exponent x"
  define m where "m = round_half_even (x / 2 powi e)"
  have y: "binary64_pos x = of_int m * 2 powi e"
    by (simp add: binary64_pos_def e_def m_def)
  have e_min: "- 1074 \<le> e" by (simp add: e_def ulp_exponent_def)
  have "round_half_even (of_int 0) \<le> m"
    unfolding m_def using assms by (intro round_half_even_mono) simp
  then have m0: "0 \<le> m" by (simp only: round_half_even_of_int)
  have "m \<le> round_half_even (of_int (2 ^ 53))"
    unfolding m_def e_def using scaled_below[OF assms] by (intro round_half_even_mono) simp
  then have m53: "m \<le> 2 ^ 53" by (simp only: round_half_even_of_int)
  show ?thesis
  proof (cases "m = 0")
    case True
    then show ?thesis by (simp add: y binary64_def)
  next
    case False
    then have mpos: "0 < m" using m0 by simp
    then have ypos: "0 < of_int m * (2::rat) powi e" by simp
    have "binary64_pos (of_int m * 2 powi e) = of_int m * 2 powi e"
    proof (cases "m = 2 ^ 53")
      case True
      have val: "of_int m * (2::rat) powi e = 2 powi (e + 53)"
        by (simp add: True power_int_add mult.commute)
      have val': "of_int m * (2::rat) powi e = of_int (2 ^ 52) * 2 powi (e + 1)"
        by (simp add: True power_int_add)
      have "ilog2 ((2::rat) powi (e + 53)) = e + 53"
        by (rule ilog2_unique) (simp_all add: power_int_add)
      then have "ulp_exponent (of_int (2 ^ 52) * (2::rat) powi (e + 1)) = e + 1"
        using e_min unfolding val' [symmetric] val by (simp add: ulp_exponent_def)
      then have "binary64_pos (of_int (2 ^ 52) * 2 powi (e + 1)) = of_int (2 ^ 52) * 2 powi (e + 1)"
        by (rule binary64_pos_grid)
      then show ?thesis by (simp only: val')
    next
      case False
      then have "m < 2 ^ 53" using m53 by simp
      then have "(of_int m :: rat) < of_int (2 ^ 53)" by (simp only: of_int_less_iff)
      then have "of_int m * (2::rat) powi e < 2 ^ 53 * 2 powi e"
        by (simp add: mult_strict_right_mono)
      also have "\<dots> = 2 powi (e + 53)" by (simp add: power_int_add mult.commute)
      finally have "ilog2 (of_int m * (2::rat) powi e) < e + 53" using ypos by (intro ilog2_less)
      then have up: "ilog2 (of_int m * (2::rat) powi e) - 52 \<le> e" by simp
      have "ulp_exponent (of_int m * (2::rat) powi e) = e"
      proof (cases "e = - 1074")
        case True
        then show ?thesis using up by (simp add: ulp_exponent_def)
      next
        case False
        then have en: "ulp_exponent x = ilog2 x - 52"
          using e_min by (simp add: e_def ulp_exponent_def max_def split: if_splits)
        have "round_half_even (of_int (2 ^ 52)) \<le> m"
          unfolding m_def e_def using scaled_above[OF assms en]
          by (intro round_half_even_mono) simp
        then have "2 ^ 52 \<le> m" by (simp only: round_half_even_of_int)
        then have "(of_int (2 ^ 52) :: rat) \<le> of_int m" by (simp only: of_int_le_iff)
        then have "(2::rat) ^ 52 * 2 powi e \<le> of_int m * 2 powi e"
          by (simp add: mult_right_mono)
        then have "(2::rat) powi (e + 52) \<le> of_int m * 2 powi e"
          by (simp add: power_int_add mult.commute)
        with ypos have "e + 52 \<le> ilog2 (of_int m * (2::rat) powi e)" by (rule ilog2_ge)
        then show ?thesis using up e_min by (simp add: ulp_exponent_def)
      qed
      then show ?thesis by (rule binary64_pos_grid)
    qed
    then show ?thesis using ypos by (simp add: y binary64_def)
  qed
qed

lemma binary64_minus: "binary64 (- x) = - binary64 x"
  by (simp add: binary64_def)

lemma binary64_idem: "binary64 (binary64 x) = binary64 x"
proof -
  consider "x = 0" | "0 < x" | "x < 0" by linarith
  then show ?thesis
  proof cases
    case 1
    then show ?thesis by (simp add: binary64_def)
  next
    case 2
    then show ?thesis using binary64_pos_idem[of x] by (simp add: binary64_def)
  next
    case 3
    then have "binary64 x = - binary64_pos (- x)" by (simp add: binary64_def)
    moreover have "binary64 (binary64_pos (- x)) = binary64_pos (- x)"
      using 3 by (intro binary64_pos_idem) simp
    ultimately show ?thesis by (simp add: binary64_minus)
  qed
qed

subsection \<open>The rounding error\<close>





section \<open>Theorems\<close>

subsection \<open>The progress bar clamps its input\<close>

text \<open>
  C8. For every finite progress value, also below 0 or above 100, the width of the
  rendered bar is \<open>min (max progress 0) 100\<close>; the percentage line, shown exactly when
  \<^verbatim>\<open>showPercentage\<close> is true, carries the same number; and that number lies
  between 0 and 100.
\<close>

theorem ProgressBar_clamps:
  "view_bar_width (ProgressBar props) = min (max (pb_progress props) 0) 100
   \<and> view_percentage (ProgressBar props) =
       (if pb_showPercentage props = Some True
        then Some (min (max (pb_progress props) 0) 100) else None)
   \<and> 0 \<le> view_bar_width (ProgressBar props)
   \<and> view_bar_width (ProgressBar props) \<le> 100"
  by (cases "pb_showPercentage props")
     (auto simp: ProgressBar_def Let_def default_to_def Math_min_def Math_max_def)

subsection \<open>The progress of a building\<close>




















text \<open>The restriction to stored buildings matters at one pair of counters between 21
  and 45 fields, 23 of 40: the quotient \<open>23 / 40\<close> is rounded to binary64 just below
  \<open>0.575\<close>, the product is just below \<open>57.5\<close>, and the program returns 57 where
  \<open>round (100 * 23 / 40)\<close> is 58. With 19 miscellaneous elements, 23 filled fields leave
  4 for the fixed fields, fewer than the 6 that every stored building has.\<close>

lemma counters_23_of_40: "building_counters building_23_of_40 = (23, 40)"
  by (simp add: building_counters_def building_23_of_40_def technicalElementKeys_def
        technical_element_filled_def bump_def truthy_string_def truthy_opt_string_def)

lemma percentage_23_of_40: "percentage (23, 40) = 57"
  unfolding percentage_def by code_simp

lemma calculateBuildingProgress_23_of_40:
  "calculateBuildingProgress building_23_of_40 = 57 \<and> Math_round (100 * 23 / 40) = 58"
proof -
  have a: "calculateBuildingProgress building_23_of_40 = 57"
    by (simp only: calculateBuildingProgress_def counters_23_of_40 percentage_23_of_40)
  have b: "Math_round (100 * 23 / 40) = 58" by (simp add: Math_round_def)
  from a b show ?thesis by (rule conjI)
qed

subsection \<open>The overall progress of a mission\<close>

lemma calculateOverallMissionProgress_closed:
  "calculateOverallMissionProgress buildings materials ''completed'' = 100
   \<and> calculateOverallMissionProgress buildings materials ''cancelled'' = 0"
  by (simp add: calculateOverallMissionProgress_def)

lemma calculateOverallMissionProgress_empty:
  "calculateOverallMissionProgress [] [] missionStatus =
     (if missionStatus = ''completed'' then 100
      else if missionStatus = ''assigned'' then 15
      else if missionStatus = ''in_progress'' then 50
      else 0)"
  by (simp add: calculateOverallMissionProgress_def)

lemma js_add_0_binary64: "js_add 0 (binary64 x) = binary64 x"
  by (simp add: js_add_def binary64_idem)

lemma js_div_1_binary64: "js_div (binary64 x) 1 = binary64 x"
  by (simp add: js_div_def binary64_idem)

lemma weight_buildings_value: "js_add 0 weight_buildings = weight_buildings"
  unfolding weight_buildings_def by (rule js_add_0_binary64)

lemma weight_materials_value: "js_add 0 weight_materials = weight_materials"
  unfolding weight_materials_def by (rule js_add_0_binary64)

lemma weights_sum: "js_add weight_buildings weight_materials = 1"
  by code_simp

lemma weights_positive: "0 < weight_buildings" "0 < weight_materials"
  by code_simp+

text \<open>The three cases of a mission that is neither completed nor cancelled and has a
  building or a material, in the arithmetic of the program: with both lists the total
  weight is exactly 1 and the result is the rounded weighted sum of the two means; with
  one list the mean is multiplied by its weight and divided by it again.\<close>

lemma calculateOverallMissionProgress_both:
  assumes "missionStatus \<noteq> ''completed''" "missionStatus \<noteq> ''cancelled''"
      and "buildings \<noteq> []" "materials \<noteq> []"
  shows "calculateOverallMissionProgress buildings materials missionStatus =
           Math_round
             (js_add
                (js_mul (js_div (sum_progress calculateBuildingProgress buildings)
                                (of_nat (length buildings))) weight_buildings)
                (js_mul (js_div (sum_progress calculateMaterialProgress materials)
                                (of_nat (length materials))) weight_materials))"
proof -
  have one: "js_div (js_add x y) 1 = js_add x y" for x y
    unfolding js_add_def by (rule js_div_1_binary64)
  have zero: "js_add 0 (js_mul x y) = js_mul x y" for x y
    unfolding js_mul_def by (rule js_add_0_binary64)
  show ?thesis
    using assms
    by (simp add: calculateOverallMissionProgress_def Let_def zero one
          weight_buildings_value weights_sum)
qed

lemma calculateOverallMissionProgress_buildings_only:
  assumes "missionStatus \<noteq> ''completed''" "missionStatus \<noteq> ''cancelled''"
      and "buildings \<noteq> []"
  shows "calculateOverallMissionProgress buildings [] missionStatus =
           Math_round
             (js_div
                (js_mul (js_div (sum_progress calculateBuildingProgress buildings)
                                (of_nat (length buildings))) weight_buildings)
                weight_buildings)"
proof -
  have zero: "js_add 0 (js_mul x y) = js_mul x y" for x y
    unfolding js_mul_def by (rule js_add_0_binary64)
  show ?thesis
    using assms weights_positive
    by (simp add: calculateOverallMissionProgress_def Let_def zero weight_buildings_value)
qed

lemma calculateOverallMissionProgress_materials_only:
  assumes "missionStatus \<noteq> ''completed''" "missionStatus \<noteq> ''cancelled''"
      and "materials \<noteq> []"
  shows "calculateOverallMissionProgress [] materials missionStatus =
           Math_round
             (js_div
                (js_mul (js_div (sum_progress calculateMaterialProgress materials)
                                (of_nat (length materials))) weight_materials)
                weight_materials)"
proof -
  have zero: "js_add 0 (js_mul x y) = js_mul x y" for x y
    unfolding js_mul_def by (rule js_add_0_binary64)
  show ?thesis
    using assms weights_positive
    by (simp add: calculateOverallMissionProgress_def Let_def zero weight_materials_value)
qed

lemma counters_12_of_21: "building_counters building_12_of_21 = (12, 21)"
  by (simp add: building_counters_def building_12_of_21_def form_building_def
        technicalElementKeys_def technical_element_filled_def bump_def truthy_string_def
        truthy_opt_string_def)

lemma counters_13_of_21: "building_counters building_13_of_21 = (13, 21)"
  by (simp add: building_counters_def building_13_of_21_def form_building_def
        technicalElementKeys_def technical_element_filled_def bump_def truthy_string_def
        truthy_opt_string_def)

lemma percentage_12_of_21: "percentage (12, 21) = 57"
  unfolding percentage_def by code_simp

lemma percentage_13_of_21: "percentage (13, 21) = 62"
  unfolding percentage_def by code_simp

lemma progress_12_of_21: "calculateBuildingProgress building_12_of_21 = 57"
  by (simp only: calculateBuildingProgress_def counters_12_of_21 percentage_12_of_21)

lemma progress_13_of_21: "calculateBuildingProgress building_13_of_21 = 62"
  by (simp only: calculateBuildingProgress_def counters_13_of_21 percentage_13_of_21)

lemma mean_57_62: "js_div (js_add (js_add 0 57) 62) 2 = 119 / 2"
  by code_simp

lemma weighted_mean_57_62:
  "js_add 0 (js_mul (119 / 2) weight_buildings) = 5024328334285209 / 140737488355328"
  by code_simp

lemma renormalized_mean_57_62:
  "js_div (5024328334285209 / 140737488355328) (js_add 0 weight_buildings)
     = 8373880557142015 / 140737488355328"
  by code_simp

text \<open>
  C4. A completed mission has progress 100 and a cancelled one 0
  (\<open>calculateOverallMissionProgress_closed\<close>); with both lists the two weights add
  up to exactly 1 and the result is the rounded weighted sum of the means
  (\<open>calculateOverallMissionProgress_both\<close>). With one list empty the mean is multiplied
  by the weight and divided by it again, each time with a rounding to binary64
  (\<open>calculateOverallMissionProgress_buildings_only\<close>), and the result is not always
  the rounded mean: two buildings with progress 57 and 62 and no material have the mean
  \<open>59.5\<close>, which rounds to 60, and the overall progress is 59.
\<close>

theorem calculateOverallMissionProgress_single_list:
  "calculateBuildingProgress building_12_of_21 = 57
   \<and> calculateBuildingProgress building_13_of_21 = 62
   \<and> calculateOverallMissionProgress [building_12_of_21, building_13_of_21] [] ''in_progress''
       = 59
   \<and> Math_round ((57 + 62) / 2) = 60
   \<and> Math_round (js_div (js_add (js_add 0 57) 62) 2) = 60"
proof -
  have w: "0 < js_add 0 weight_buildings" by code_simp
  have r: "Math_round (8373880557142015 / 140737488355328) = 59"
    by code_simp
  have a: "calculateOverallMissionProgress [building_12_of_21, building_13_of_21] []
             ''in_progress'' = 59"
    by (simp add: calculateOverallMissionProgress_def sum_progress_def Let_def
          progress_12_of_21 progress_13_of_21 mean_57_62 weighted_mean_57_62
          renormalized_mean_57_62 w r)
  have b: "Math_round ((57 + 62) / 2) = 60" by (simp add: Math_round_def)
  have c: "Math_round (js_div (js_add (js_add 0 57) 62) 2) = 60"
    by (simp add: mean_57_62 Math_round_def)
  from progress_12_of_21 progress_13_of_21 a b c show ?thesis by (intro conjI)
qed

subsection \<open>Validation status\<close>

text \<open>
  C10. For every list of buildings, and for every list of materials, the validation
  status reports \<open>completed\<close> as the number of items whose progress is at least 80 and
  \<open>total\<close> as the length of the list, so \<open>completed \<le> total\<close>; the status string is
  \<open>str_Valide\<close> exactly when the list is not empty and every item is completed,
  "Validation partielle" exactly when \<open>0 < completed < total\<close>, "En attente" exactly
  when \<open>completed = 0 < total\<close>, and \<open>str_Aucun_batiment\<close>, respectively
  \<open>str_Aucun_materiel\<close>, exactly when the list is empty.
\<close>

theorem validation_status_summary:
  "(vs_completed (getBuildingsValidationStatus buildings)
     = length (filter (\<lambda>building. 80 \<le> calculateBuildingProgress building) buildings)
   \<and> vs_total (getBuildingsValidationStatus buildings) = length buildings
   \<and> vs_completed (getBuildingsValidationStatus buildings)
       \<le> vs_total (getBuildingsValidationStatus buildings)
   \<and> (vs_status (getBuildingsValidationStatus buildings) = str_Valide
        \<longleftrightarrow> 0 < vs_total (getBuildingsValidationStatus buildings)
          \<and> vs_completed (getBuildingsValidationStatus buildings)
              = vs_total (getBuildingsValidationStatus buildings))
   \<and> (vs_status (getBuildingsValidationStatus buildings) = ''Validation partielle''
        \<longleftrightarrow> 0 < vs_completed (getBuildingsValidationStatus buildings)
          \<and> vs_completed (getBuildingsValidationStatus buildings)
              < vs_total (getBuildingsValidationStatus buildings))
   \<and> (vs_status (getBuildingsValidationStatus buildings) = ''En attente''
        \<longleftrightarrow> vs_completed (getBuildingsValidationStatus buildings) = 0
          \<and> 0 < vs_total (getBuildingsValidationStatus buildings))
   \<and> (vs_status (getBuildingsValidationStatus buildings) = str_Aucun_batiment
        \<longleftrightarrow> buildings = []))
   \<and> (vs_completed (getMaterialsValidationStatus materials)
     = length (filter (\<lambda>material. 80 \<le> calculateMaterialProgress material) materials)
   \<and> vs_total (getMaterialsValidationStatus materials) = length materials
   \<and> vs_completed (getMaterialsValidationStatus materials)
       \<le> vs_total (getMaterialsValidationStatus materials)
   \<and> (vs_status (getMaterialsValidationStatus materials) = str_Valide
        \<longleftrightarrow> 0 < vs_total (getMaterialsValidationStatus materials)
          \<and> vs_completed (getMaterialsValidationStatus materials)
              = vs_total (getMaterialsValidationStatus materials))
   \<and> (vs_status (getMaterialsValidationStatus materials) = ''Validation partielle''
        \<longleftrightarrow> 0 < vs_completed (getMaterialsValidationStatus materials)
          \<and> vs_completed (getMaterialsValidationStatus materials)
              < vs_total (getMaterialsValidationStatus materials))
   \<and> (vs_status (getMaterialsValidationStatus materials) = ''En attente''
        \<longleftrightarrow> vs_completed (getMaterialsValidationStatus materials) = 0
          \<and> 0 < vs_total (getMaterialsValidationStatus materials))
   \<and> (vs_status (getMaterialsValidationStatus materials) = str_Aucun_materiel
        \<longleftrightarrow> materials = []))"
proof -
  let ?cb = "length (filter (\<lambda>building. 80 \<le> calculateBuildingProgress building) buildings)"
  let ?cm = "length (filter (\<lambda>material. 80 \<le> calculateMaterialProgress material) materials)"
  have cb: "?cb \<le> length buildings" by (rule length_filter_le)
  have cm: "?cm \<le> length materials" by (rule length_filter_le)
  have strs: "str_Valide \<noteq> ''Validation partielle''" "str_Valide \<noteq> ''En attente''"
    "str_Valide \<noteq> str_Aucun_batiment" "str_Valide \<noteq> str_Aucun_materiel"
    "str_Aucun_batiment \<noteq> ''Validation partielle''" "str_Aucun_batiment \<noteq> ''En attente''"
    "str_Aucun_materiel \<noteq> ''Validation partielle''" "str_Aucun_materiel \<noteq> ''En attente''"
    by (simp_all add: str_Valide_def str_Aucun_batiment_def str_Aucun_materiel_def)
  have b: "getBuildingsValidationStatus buildings =
      (if buildings = [] then
         \<lparr> vs_completed = 0, vs_total = 0, vs_status = str_Aucun_batiment,
           vs_color = ''text-gray-600'' \<rparr>
       else if ?cb = length buildings then
         \<lparr> vs_completed = ?cb, vs_total = length buildings, vs_status = str_Valide,
           vs_color = ''text-green-600'' \<rparr>
       else if 0 < ?cb then
         \<lparr> vs_completed = ?cb, vs_total = length buildings,
           vs_status = ''Validation partielle'', vs_color = ''text-amber-600'' \<rparr>
       else
         \<lparr> vs_completed = ?cb, vs_total = length buildings, vs_status = ''En attente'',
           vs_color = ''text-gray-600'' \<rparr>)"
    by (simp add: getBuildingsValidationStatus_def Let_def)
  have m: "getMaterialsValidationStatus materials =
      (if materials = [] then
         \<lparr> vs_completed = 0, vs_total = 0, vs_status = str_Aucun_materiel,
           vs_color = ''text-gray-600'' \<rparr>
       else if ?cm = length materials then
         \<lparr> vs_completed = ?cm, vs_total = length materials, vs_status = str_Valide,
           vs_color = ''text-green-600'' \<rparr>
       else if 0 < ?cm then
         \<lparr> vs_completed = ?cm, vs_total = length materials,
           vs_status = ''Validation partielle'', vs_color = ''text-amber-600'' \<rparr>
       else
         \<lparr> vs_completed = ?cm, vs_total = length materials, vs_status = ''En attente'',
           vs_color = ''text-gray-600'' \<rparr>)"
    by (simp add: getMaterialsValidationStatus_def Let_def)
  have B: "vs_completed (getBuildingsValidationStatus buildings) = ?cb
   \<and> vs_total (getBuildingsValidationStatus buildings) = length buildings
   \<and> vs_completed (getBuildingsValidationStatus buildings)
       \<le> vs_total (getBuildingsValidationStatus buildings)
   \<and> (vs_status (getBuildingsValidationStatus buildings) = str_Valide
        \<longleftrightarrow> 0 < vs_total (getBuildingsValidationStatus buildings)
          \<and> vs_completed (getBuildingsValidationStatus buildings)
              = vs_total (getBuildingsValidationStatus buildings))
   \<and> (vs_status (getBuildingsValidationStatus buildings) = ''Validation partielle''
        \<longleftrightarrow> 0 < vs_completed (getBuildingsValidationStatus buildings)
          \<and> vs_completed (getBuildingsValidationStatus buildings)
              < vs_total (getBuildingsValidationStatus buildings))
   \<and> (vs_status (getBuildingsValidationStatus buildings) = ''En attente''
        \<longleftrightarrow> vs_completed (getBuildingsValidationStatus buildings) = 0
          \<and> 0 < vs_total (getBuildingsValidationStatus buildings))
   \<and> (vs_status (getBuildingsValidationStatus buildings) = str_Aucun_batiment
        \<longleftrightarrow> buildings = [])"
    using cb strs unfolding b by (cases "buildings = []"; cases "?cb = length buildings"; cases "0 < ?cb"; simp del: length_filter_le; linarith?)
  have M: "vs_completed (getMaterialsValidationStatus materials) = ?cm
   \<and> vs_total (getMaterialsValidationStatus materials) = length materials
   \<and> vs_completed (getMaterialsValidationStatus materials)
       \<le> vs_total (getMaterialsValidationStatus materials)
   \<and> (vs_status (getMaterialsValidationStatus materials) = str_Valide
        \<longleftrightarrow> 0 < vs_total (getMaterialsValidationStatus materials)
          \<and> vs_completed (getMaterialsValidationStatus materials)
              = vs_total (getMaterialsValidationStatus materials))
   \<and> (vs_status (getMaterialsValidationStatus materials) = ''Validation partielle''
        \<longleftrightarrow> 0 < vs_completed (getMaterialsValidationStatus materials)
          \<and> vs_completed (getMaterialsValidationStatus materials)
              < vs_total (getMaterialsValidationStatus materials))
   \<and> (vs_status (getMaterialsValidationStatus materials) = ''En attente''
        \<longleftrightarrow> vs_completed (getMaterialsValidationStatus materials) = 0
          \<and> 0 < vs_total (getMaterialsValidationStatus materials))
   \<and> (vs_status (getMaterialsValidationStatus materials) = str_Aucun_materiel
        \<longleftrightarrow> materials = [])"
    using cm strs unfolding m by (cases "materials = []"; cases "?cm = length materials"; cases "0 < ?cm"; simp del: length_filter_le; linarith?)
  from B M show ?thesis by (rule conjI)
qed

subsection \<open>Dashboard variation\<close>

text \<open>The function is total: with division modelled as partial, it returns a number
  for every pair of counts, the guard \<^verbatim>\<open>previous === 0\<close> coming before the
  division.\<close>

lemma calculateVariation_returns:
  "calculateVariation (of_nat current) (of_nat previous) =
     Some (if previous \<noteq> 0
           then Math_round (js_mul (js_div (js_sub (of_nat current) (of_nat previous))
                                           (of_nat previous)) 100)
           else if 0 < current then 100 else 0)"
  by (simp add: calculateVariation_def js_div_finite_def)

text \<open>
  C7. The variation is total, never divides by zero, and is 100 or 0 when
  \<open>previous = 0\<close>, as the claim says. For \<open>previous \<noteq> 0\<close> it is not always
  \<open>round (((current - previous) / previous) * 100)\<close>: with 63 missions after 40 the
  quotient \<open>23 / 40\<close> is rounded to binary64 just below \<open>0.575\<close>, the product is just
  below \<open>57.5\<close>, and the function returns 57, while the variation is 57.5 percent and
  its round is 58.
\<close>

theorem calculateVariation_tie:
  "calculateVariation 63 40 = Some 57
   \<and> js_div (js_sub 63 40) 40 = 2589569785738035 / 4503599627370496
   \<and> js_mul (js_div (js_sub 63 40) 40) 100 = 8092405580431359 / 140737488355328
   \<and> Math_round (((63 - 40) / 40) * 100) = 58"
proof -
  have v: "calculateVariation 63 40 = Some 57" by code_simp
  have q: "js_div (js_sub 63 40) 40 = 2589569785738035 / 4503599627370496" by code_simp
  have m: "js_mul (js_div (js_sub 63 40) 40) 100 = 8092405580431359 / 140737488355328"
    by code_simp
  have r: "Math_round (((63 - 40) / 40) * 100) = 58" by (simp add: Math_round_def)
  from v q m r show ?thesis by (intro conjI)
qed

subsection \<open>The route guard\<close>

text \<open>
  C9, as the claim states it, fails while the session is loading: the guard then
  returns the loading screen, which is neither a redirect to the login page nor the
  connection-problem screen nor the access-refused screen. It also fails for the empty
  error string, which is not null and which the test \<^verbatim>\<open>if (error)\<close> lets
  through to the children.
\<close>

theorem ProtectedRoute_loading_counterexample:
  "ProtectedRoute ''page'' None \<lparr> auth_user = None, auth_loading = True, auth_error = None \<rparr>
     = LoadingScreen
   \<and> LoadingScreen \<noteq> (NavigateToLogin None :: string route_result)
   \<and> LoadingScreen \<noteq> (NavigateToLogin (Some str_session_expiree) :: string route_result)
   \<and> LoadingScreen \<noteq> (ConnectionProblemScreen [] :: string route_result)
   \<and> LoadingScreen \<noteq> (AccessDeniedScreen constateur :: string route_result)
   \<and> ProtectedRoute ''page'' None
        \<lparr> auth_user = Some \<lparr> user_id = ''u1'', user_email = ''u1@example.org'',
                              user_role = expert, user_full_name = None, user_phone = None,
                              user_is_active = True \<rparr>,
          auth_loading = False, auth_error = Some [] \<rparr>
     = RenderChildren ''page''"
  by (simp add: ProtectedRoute_def truthy_opt_string_def truthy_string_def)

text \<open>
  C9, amended. The guard renders its children if and only if loading is false, the
  error is null or the empty string (the test \<^verbatim>\<open>if (error)\<close> lets both through),
  the user is not null, and either no list of allowed roles is given or the user's role
  is in it. In every other case it returns the loading screen (exactly when loading is
  true), a redirect to the login page, the connection-problem screen or the
  access-refused screen, and never the children.
\<close>

theorem ProtectedRoute_children_iff:
  "(ProtectedRoute children allowedRoles auth = RenderChildren children
      \<longleftrightarrow> \<not> auth_loading auth
        \<and> (auth_error auth = None \<or> auth_error auth = Some [])
        \<and> (\<exists>u. auth_user auth = Some u
                \<and> (allowedRoles = None
                    \<or> (\<exists>roles. allowedRoles = Some roles \<and> user_role u \<in> set roles))))
   \<and> (\<forall>shown. ProtectedRoute children allowedRoles auth = RenderChildren shown
               \<longleftrightarrow> shown = children
                 \<and> ProtectedRoute children allowedRoles auth = RenderChildren children)
   \<and> (ProtectedRoute children allowedRoles auth = LoadingScreen \<longleftrightarrow> auth_loading auth)
   \<and> (ProtectedRoute children allowedRoles auth = RenderChildren children
       \<or> ProtectedRoute children allowedRoles auth = LoadingScreen
       \<or> (\<exists>state. ProtectedRoute children allowedRoles auth = NavigateToLogin state)
       \<or> (\<exists>message. ProtectedRoute children allowedRoles auth = ConnectionProblemScreen message)
       \<or> (\<exists>r. ProtectedRoute children allowedRoles auth = AccessDeniedScreen r))"
  by (cases "auth_user auth"; cases allowedRoles; cases "auth_error auth")
     (auto simp: ProtectedRoute_def Let_def truthy_opt_string_def truthy_string_def
        shouldRedirectToLogin_def)

subsection \<open>Role hierarchy\<close>



























subsection \<open>Write access of a constateur to buildings\<close>

lemma profile_exists_unique:
  assumes "filter (\<lambda>p. p_id p = uid) (profiles db) = [p]"
  shows "profile_exists db uid roles
           \<longleftrightarrow> (case p_role p of None \<Rightarrow> False | Some r \<Rightarrow> r \<in> set roles)
             \<and> p_is_active p = Some True"
proof -
  let ?Q = "\<lambda>p. (case p_role p of None \<Rightarrow> False | Some r \<Rightarrow> r \<in> set roles)
                \<and> p_is_active p = Some True"
  have "profile_exists db uid roles
          \<longleftrightarrow> list_ex ?Q (filter (\<lambda>p. p_id p = uid) (profiles db))"
    by (auto simp: profile_exists_def list_ex_iff)
  then show ?thesis by (simp add: assms)
qed

lemma open_assigned_mission_exists_iff:
  "open_assigned_mission_exists db uid b
     \<longleftrightarrow> (\<exists>mb \<in> set (mission_buildings db). \<exists>m \<in> set (missions db).
            m_id m = mb_mission_id mb \<and> mb_building_id mb = bld_id b
            \<and> m_assigned_to m = Some uid
            \<and> m_status m \<in> {Some draft, Some assigned, Some in_progress})"
  by (simp add: open_assigned_mission_exists_def list_ex_iff)

text \<open>
  C2, as the claim states it, fails in its last part: a building that belongs to two
  missions assigned to the constateur, one completed and one in progress, is a building
  of a completed mission, and the constateur who created it may update and delete it.
\<close>

theorem constateur_closed_mission_counterexample:
  "buildings_update_using
     \<lparr> profiles = [\<lparr> p_id = ''u1'', p_role = Some ''constateur'', p_is_active = Some True \<rparr>],
       missions = [\<lparr> m_id = ''m1'', m_status = Some completed,
                     m_assigned_to = Some ''u1'', m_created_by = ''u2'' \<rparr>,
                   \<lparr> m_id = ''m2'', m_status = Some in_progress,
                     m_assigned_to = Some ''u1'', m_created_by = ''u2'' \<rparr>],
       mission_buildings = [\<lparr> mb_mission_id = ''m1'', mb_building_id = ''b1'' \<rparr>,
                            \<lparr> mb_mission_id = ''m2'', mb_building_id = ''b1'' \<rparr>] \<rparr>
     ''u1'' \<lparr> bld_id = ''b1'', bld_created_by = Some ''u1'' \<rparr>
   \<and> buildings_update_check
     \<lparr> profiles = [\<lparr> p_id = ''u1'', p_role = Some ''constateur'', p_is_active = Some True \<rparr>],
       missions = [\<lparr> m_id = ''m1'', m_status = Some completed,
                     m_assigned_to = Some ''u1'', m_created_by = ''u2'' \<rparr>,
                   \<lparr> m_id = ''m2'', m_status = Some in_progress,
                     m_assigned_to = Some ''u1'', m_created_by = ''u2'' \<rparr>],
       mission_buildings = [\<lparr> mb_mission_id = ''m1'', mb_building_id = ''b1'' \<rparr>,
                            \<lparr> mb_mission_id = ''m2'', mb_building_id = ''b1'' \<rparr>] \<rparr>
     ''u1'' \<lparr> bld_id = ''b1'', bld_created_by = Some ''u1'' \<rparr>
   \<and> buildings_delete_using
     \<lparr> profiles = [\<lparr> p_id = ''u1'', p_role = Some ''constateur'', p_is_active = Some True \<rparr>],
       missions = [\<lparr> m_id = ''m1'', m_status = Some completed,
                     m_assigned_to = Some ''u1'', m_created_by = ''u2'' \<rparr>,
                   \<lparr> m_id = ''m2'', m_status = Some in_progress,
                     m_assigned_to = Some ''u1'', m_created_by = ''u2'' \<rparr>],
       mission_buildings = [\<lparr> mb_mission_id = ''m1'', mb_building_id = ''b1'' \<rparr>,
                            \<lparr> mb_mission_id = ''m2'', mb_building_id = ''b1'' \<rparr>] \<rparr>
     ''u1'' \<lparr> bld_id = ''b1'', bld_created_by = Some ''u1'' \<rparr>"
  by (simp add: buildings_update_using_def buildings_update_check_def
        buildings_delete_using_def profile_exists_def open_assigned_mission_exists_def)

text \<open>
  C2, amended. A user whose profile has the role constateur may update or delete a
  buildings row if and only if the profile is active, the row's \<open>created_by\<close> is the
  user, and the building belongs to a mission assigned to the user whose status is
  draft, assigned or in progress; the row after an update is checked by the same
  condition. In particular a constateur can never modify or delete a building when
  every mission assigned to them that contains it is completed or cancelled.
\<close>

theorem constateur_building_write_access:
  assumes "filter (\<lambda>p. p_id p = uid) (profiles db) = [p]"
      and "p_role p = Some ''constateur''"
  shows "(buildings_update_using db uid b
            \<longleftrightarrow> p_is_active p = Some True \<and> bld_created_by b = Some uid
              \<and> (\<exists>mb \<in> set (mission_buildings db). \<exists>m \<in> set (missions db).
                    m_id m = mb_mission_id mb \<and> mb_building_id mb = bld_id b
                    \<and> m_assigned_to m = Some uid
                    \<and> m_status m \<in> {Some draft, Some assigned, Some in_progress}))
       \<and> (buildings_update_check db uid b \<longleftrightarrow> buildings_update_using db uid b)
       \<and> (buildings_delete_using db uid b \<longleftrightarrow> buildings_update_using db uid b)
       \<and> ((\<forall>mb \<in> set (mission_buildings db). \<forall>m \<in> set (missions db).
              m_id m = mb_mission_id mb \<and> mb_building_id mb = bld_id b
              \<and> m_assigned_to m = Some uid
              \<longrightarrow> m_status m = Some completed \<or> m_status m = Some cancelled)
            \<longrightarrow> \<not> buildings_update_using db uid b \<and> \<not> buildings_delete_using db uid b)"
proof -
  have adm: "\<not> profile_exists db uid [''super_admin'', ''admin'']"
    by (simp add: profile_exists_unique[OF assms(1)] assms(2))
  have exp: "\<not> profile_exists db uid [''expert'']"
    by (simp add: profile_exists_unique[OF assms(1)] assms(2))
  have con: "profile_exists db uid [''constateur''] \<longleftrightarrow> p_is_active p = Some True"
    by (simp add: profile_exists_unique[OF assms(1)] assms(2))
  have u: "buildings_update_using db uid b
            \<longleftrightarrow> p_is_active p = Some True \<and> bld_created_by b = Some uid
              \<and> open_assigned_mission_exists db uid b"
    unfolding buildings_update_using_def using adm exp con by blast
  have c: "buildings_update_check db uid b \<longleftrightarrow> buildings_update_using db uid b"
    by (simp only: buildings_update_check_def buildings_update_using_def)
  have d: "buildings_delete_using db uid b \<longleftrightarrow> buildings_update_using db uid b"
    by (simp only: buildings_delete_using_def buildings_update_using_def)
  have n: "(\<forall>mb \<in> set (mission_buildings db). \<forall>m \<in> set (missions db).
              m_id m = mb_mission_id mb \<and> mb_building_id mb = bld_id b
              \<and> m_assigned_to m = Some uid
              \<longrightarrow> m_status m = Some completed \<or> m_status m = Some cancelled)
            \<longrightarrow> \<not> open_assigned_mission_exists db uid b"
    unfolding open_assigned_mission_exists_iff by fastforce
  show ?thesis
    using n unfolding c d u by (auto simp: open_assigned_mission_exists_iff)
qed

theorem constateur_building_write_access_witness:
  "filter (\<lambda>p. p_id p = ''u1'')
       [\<lparr> p_id = ''u1'', p_role = Some ''constateur'', p_is_active = Some True \<rparr>,
        \<lparr> p_id = ''u2'', p_role = Some ''expert'', p_is_active = Some True \<rparr>]
     = [\<lparr> p_id = ''u1'', p_role = Some ''constateur'', p_is_active = Some True \<rparr>]
   \<and> buildings_update_using
        \<lparr> profiles = [\<lparr> p_id = ''u1'', p_role = Some ''constateur'', p_is_active = Some True \<rparr>,
                      \<lparr> p_id = ''u2'', p_role = Some ''expert'', p_is_active = Some True \<rparr>],
          missions = [\<lparr> m_id = ''m1'', m_status = Some completed,
                        m_assigned_to = Some ''u1'', m_created_by = ''u2'' \<rparr>,
                      \<lparr> m_id = ''m2'', m_status = Some in_progress,
                        m_assigned_to = Some ''u1'', m_created_by = ''u2'' \<rparr>],
          mission_buildings = [\<lparr> mb_mission_id = ''m1'', mb_building_id = ''b1'' \<rparr>,
                               \<lparr> mb_mission_id = ''m2'', mb_building_id = ''b2'' \<rparr>] \<rparr>
        ''u1'' \<lparr> bld_id = ''b2'', bld_created_by = Some ''u1'' \<rparr>
   \<and> \<not> buildings_update_using
        \<lparr> profiles = [\<lparr> p_id = ''u1'', p_role = Some ''constateur'', p_is_active = Some True \<rparr>,
                      \<lparr> p_id = ''u2'', p_role = Some ''expert'', p_is_active = Some True \<rparr>],
          missions = [\<lparr> m_id = ''m1'', m_status = Some completed,
                        m_assigned_to = Some ''u1'', m_created_by = ''u2'' \<rparr>,
                      \<lparr> m_id = ''m2'', m_status = Some in_progress,
                        m_assigned_to = Some ''u1'', m_created_by = ''u2'' \<rparr>],
          mission_buildings = [\<lparr> mb_mission_id = ''m1'', mb_building_id = ''b1'' \<rparr>,
                               \<lparr> mb_mission_id = ''m2'', mb_building_id = ''b2'' \<rparr>] \<rparr>
        ''u1'' \<lparr> bld_id = ''b1'', bld_created_by = Some ''u1'' \<rparr>
   \<and> \<not> buildings_delete_using
        \<lparr> profiles = [\<lparr> p_id = ''u1'', p_role = Some ''constateur'', p_is_active = Some True \<rparr>,
                      \<lparr> p_id = ''u2'', p_role = Some ''expert'', p_is_active = Some True \<rparr>],
          missions = [\<lparr> m_id = ''m1'', m_status = Some completed,
                        m_assigned_to = Some ''u1'', m_created_by = ''u2'' \<rparr>,
                      \<lparr> m_id = ''m2'', m_status = Some in_progress,
                        m_assigned_to = Some ''u1'', m_created_by = ''u2'' \<rparr>],
          mission_buildings = [\<lparr> mb_mission_id = ''m1'', mb_building_id = ''b1'' \<rparr>,
                               \<lparr> mb_mission_id = ''m2'', mb_building_id = ''b2'' \<rparr>] \<rparr>
        ''u1'' \<lparr> bld_id = ''b1'', bld_created_by = Some ''u1'' \<rparr>"
proof -
  let ?p = "\<lparr> p_id = ''u1'', p_role = Some ''constateur'', p_is_active = Some True \<rparr>"
  let ?db = "\<lparr> profiles = [?p,
                      \<lparr> p_id = ''u2'', p_role = Some ''expert'', p_is_active = Some True \<rparr>],
          missions = [\<lparr> m_id = ''m1'', m_status = Some completed,
                        m_assigned_to = Some ''u1'', m_created_by = ''u2'' \<rparr>,
                      \<lparr> m_id = ''m2'', m_status = Some in_progress,
                        m_assigned_to = Some ''u1'', m_created_by = ''u2'' \<rparr>],
          mission_buildings = [\<lparr> mb_mission_id = ''m1'', mb_building_id = ''b1'' \<rparr>,
                               \<lparr> mb_mission_id = ''m2'', mb_building_id = ''b2'' \<rparr>] \<rparr>"
  have f: "filter (\<lambda>p. p_id p = ''u1'') (profiles ?db) = [?p]" by simp
  have r: "p_role ?p = Some ''constateur''" by simp
  show ?thesis
    using constateur_building_write_access [OF f r, of "\<lparr> bld_id = ''b2'', bld_created_by = Some ''u1'' \<rparr>"]
      constateur_building_write_access [OF f r, of "\<lparr> bld_id = ''b1'', bld_created_by = Some ''u1'' \<rparr>"]
    by simp
qed

subsection \<open>The page break\<close>





subsection \<open>The slug of a report name\<close>

lemma dash_separated_chars:
  "dash_separated s \<Longrightarrow> c \<in> set s \<Longrightarrow> lower_alnum c \<or> c = CHR ''-''"
  by (induction s rule: dash_separated.induct) auto

lemma dash_separated_tl: "dash_separated (c # cs) \<Longrightarrow> dash_separated cs"
  by (cases cs) auto

lemma dash_separated_dropWhile: "dash_separated s \<Longrightarrow> dash_separated (dropWhile P s)"
  by (induction s) (auto dest: dash_separated_tl)

lemma dash_separated_prefix: "dash_separated (xs @ ys) \<Longrightarrow> dash_separated xs"
proof (induction xs rule: dash_separated.induct)
  case 1
  then show ?case by simp
next
  case (2 c)
  then show ?case by (cases ys) auto
next
  case (3 c d cs)
  then show ?case by simp
qed

lemma rev_dropWhile_rev_prefix:
  "s = rev (dropWhile P (rev s)) @ rev (takeWhile P (rev s))"
proof -
  have "rev s = takeWhile P (rev s) @ dropWhile P (rev s)" by simp
  then have "rev (rev s) = rev (takeWhile P (rev s) @ dropWhile P (rev s))" by (rule arg_cong)
  then show ?thesis by (simp only: rev_rev_ident rev_append)
qed

lemma dash_separated_strip: "dash_separated s \<Longrightarrow> dash_separated (strip_dashes s)"
proof -
  assume s: "dash_separated s"
  let ?d = "dropWhile (\<lambda>c. c = CHR ''-'') s"
  have d: "dash_separated ?d" using s by (rule dash_separated_dropWhile)
  have "?d = strip_dashes s @ rev (takeWhile (\<lambda>c. c = CHR ''-'') (rev ?d))"
    unfolding strip_dashes_def by (rule rev_dropWhile_rev_prefix)
  with d show ?thesis by (metis dash_separated_prefix)
qed

lemma dropWhile_other_alnum:
  "dropWhile (\<lambda>c. \<not> lower_alnum c) s = [] \<or> lower_alnum (hd (dropWhile (\<lambda>c. \<not> lower_alnum c) s))"
  using hd_dropWhile[of "\<lambda>c. \<not> lower_alnum c" s] by auto

lemma dash_separated_cons_dash:
  "dash_separated r \<Longrightarrow> r = [] \<or> lower_alnum (hd r) \<Longrightarrow> dash_separated (CHR ''-'' # r)"
  by (cases r) auto

lemma dash_separated_cons_alnum:
  "dash_separated r \<Longrightarrow> lower_alnum c \<Longrightarrow> dash_separated (c # r)"
  by (cases r) auto

lemma replace_other_runs_head:
  "replace_other_runs s = [] \<or> lower_alnum (hd (replace_other_runs s))
   \<or> (s \<noteq> [] \<and> \<not> lower_alnum (hd s))"
  by (cases s) auto

lemma replace_other_runs_dash_separated: "dash_separated (replace_other_runs s)"
proof (induction s rule: replace_other_runs.induct)
  case 1
  then show ?case by simp
next
  case (2 c cs)
  show ?case
  proof (cases "lower_alnum c")
    case True
    then show ?thesis using 2 by (simp add: dash_separated_cons_alnum)
  next
    case False
    let ?r = "dropWhile (\<lambda>c. \<not> lower_alnum c) cs"
    have ih: "dash_separated (replace_other_runs ?r)" using 2 False by simp
    have "replace_other_runs ?r = [] \<or> lower_alnum (hd (replace_other_runs ?r))"
      using replace_other_runs_head[of ?r] dropWhile_other_alnum[of cs] by auto
    with ih have "dash_separated (CHR ''-'' # replace_other_runs ?r)"
      by (rule dash_separated_cons_dash)
    then show ?thesis using False by simp
  qed
qed

lemma replace_other_runs_fixed: "dash_separated s \<Longrightarrow> replace_other_runs s = s"
proof (induction s rule: dash_separated.induct)
  case 1
  then show ?case by simp
next
  case (2 c)
  then show ?case by auto
next
  case (3 c d cs)
  then show ?case by auto
qed

lemma lower_alnum_not_dash: "lower_alnum c \<Longrightarrow> c \<noteq> CHR ''-''"
  by (auto simp: lower_alnum_def Let_def)

lemma toLowerCase_unit_fixed: "lower_alnum c \<or> c = CHR ''-'' \<Longrightarrow> toLowerCase_unit c = c"
  by (auto simp: lower_alnum_def toLowerCase_unit_def Let_def)

lemma toLowerCase_fixed: "dash_separated s \<Longrightarrow> toLowerCase s = s"
  unfolding toLowerCase_def
  by (rule map_idI) (auto dest: dash_separated_chars simp: toLowerCase_unit_fixed)

lemma strip_dashes_first: "take 1 (strip_dashes s) \<noteq> ''-''"
proof
  assume a: "take 1 (strip_dashes s) = ''-''"
  let ?P = "\<lambda>c. c = CHR ''-''"
  let ?d = "dropWhile ?P s"
  from a obtain r where r: "strip_dashes s = CHR ''-'' # r"
    by (cases "strip_dashes s") auto
  have "?d = strip_dashes s @ rev (takeWhile ?P (rev ?d))"
    unfolding strip_dashes_def by (rule rev_dropWhile_rev_prefix)
  then have "?d = CHR ''-'' # (r @ rev (takeWhile ?P (rev ?d)))" using r by simp
  then have "hd ?d = CHR ''-''" "?d \<noteq> []" by (metis list.sel(1), metis list.distinct(1))
  then show False using hd_dropWhile[of ?P s] by simp
qed

lemma strip_dashes_last: "take 1 (rev (strip_dashes s)) \<noteq> ''-''"
proof
  assume a: "take 1 (rev (strip_dashes s)) = ''-''"
  let ?P = "\<lambda>c. c = CHR ''-''"
  let ?e = "dropWhile ?P (rev (dropWhile ?P s))"
  have e: "rev (strip_dashes s) = ?e" by (simp add: strip_dashes_def)
  from a e obtain r where r: "?e = CHR ''-'' # r" by (cases ?e) auto
  then have "hd ?e = CHR ''-''" "?e \<noteq> []" by (metis list.sel(1), metis list.distinct(1))
  then show False using hd_dropWhile[of ?P "rev (dropWhile ?P s)"] by simp
qed

lemma strip_dashes_fixed:
  assumes "take 1 s \<noteq> ''-''" and "take 1 (rev s) \<noteq> ''-''"
  shows "strip_dashes s = s"
proof -
  let ?P = "\<lambda>c. c = CHR ''-''"
  have 1: "dropWhile ?P s = s" using assms(1) by (cases s) auto
  have 2: "dropWhile ?P (rev s) = rev s" using assms(2) by (cases "rev s") auto
  show ?thesis by (simp add: strip_dashes_def 1 2)
qed

lemma createSlug_dash_separated: "dash_separated (createSlug title)"
  unfolding createSlug_def
  by (rule dash_separated_strip) (rule replace_other_runs_dash_separated)

text \<open>
  C6. The report is downloaded as \<open>rapport_\<close>, the slug of the mission title,
  \<open>.pdf\<close>. For every title the slug contains only the characters a to z, 0 to 9 and
  the dash, neither starts nor ends with a dash, and is a fixed point of
  \<^verbatim>\<open>createSlug\<close>.
\<close>

theorem createSlug_properties:
  "report_fileName title = ''rapport_'' @ createSlug title @ ''.pdf''
   \<and> set (createSlug title) \<subseteq> {c. lower_alnum c \<or> c = CHR ''-''}
   \<and> take 1 (createSlug title) \<noteq> ''-''
   \<and> take 1 (rev (createSlug title)) \<noteq> ''-''
   \<and> createSlug (createSlug title) = createSlug title"
proof -
  let ?s = "createSlug title"
  have ds: "dash_separated ?s" by (rule createSlug_dash_separated)
  have chars: "set ?s \<subseteq> {c. lower_alnum c \<or> c = CHR ''-''}"
    using ds by (auto dest: dash_separated_chars)
  have first: "take 1 ?s \<noteq> ''-''" unfolding createSlug_def by (rule strip_dashes_first)
  have last: "take 1 (rev ?s) \<noteq> ''-''" unfolding createSlug_def by (rule strip_dashes_last)
  have "createSlug ?s = strip_dashes (replace_other_runs (toLowerCase ?s))"
    by (simp only: createSlug_def)
  also have "\<dots> = strip_dashes (replace_other_runs ?s)" using ds by (simp only: toLowerCase_fixed)
  also have "\<dots> = strip_dashes ?s" using ds by (simp only: replace_other_runs_fixed)
  also have "\<dots> = ?s" using first last by (rule strip_dashes_fixed)
  finally have idem: "createSlug ?s = ?s" .
  have name: "report_fileName title = ''rapport_'' @ ?s @ ''.pdf''"
    by (simp add: report_fileName_def Let_def)
  from name chars first last idem show ?thesis by (intro conjI)
qed

lemma createSlug_example: "createSlug ''  Usine Nord -- 2024!'' = ''usine-nord-2024''"
  by code_simp

end
